theory Spec2Isabelle
  imports Main
begin

section \<open>The request scheduler of vk-io: \<^verbatim>\<open>src/api/index.mjs\<close>\<close>

text \<open>
  The class \<^verbatim>\<open>API\<close> keeps a queue of \<^verbatim>\<open>Request\<close> objects and two flags,
  \<^verbatim>\<open>started\<close> and \<^verbatim>\<open>suspended\<close>. Its methods are embedded as functions on an
  explicit state. JavaScript runs one job at a time, so an \<^verbatim>\<open>async\<close> method is a
  sequence of segments, each running from one \<^verbatim>\<open>await\<close> to the next without
  interruption: every segment is one function here, and what a segment leaves
  waiting (a delay, a collaborator's answer, a timer) is appended to the field
  \<open>awaiting\<close> of the state.
\<close>

subsection \<open>Values\<close>

text \<open>The JavaScript values the scheduler passes around without inspecting them,
  but for \<^verbatim>\<open>key instanceof Error\<close>.\<close>

datatype jsval = Undefined | Str string | ErrorObj string

text \<open>Parsed JSON, as \<^verbatim>\<open>response.json()\<close> delivers it.\<close>

datatype json =
    JNull
  | JBool bool
  | JNum int
  | JStr string
  | JArr "json list"
  | JObj "(string \<times> json) list"

text \<open>A duration handed to \<^verbatim>\<open>delay\<close> or \<^verbatim>\<open>setTimeout\<close>, kept as the arithmetic
  expression of the source: the numbers are doubles, and nothing here depends on
  their rounding.\<close>

datatype ms = Const int | Quot ms ms | Plus ms ms | Round ms

text \<open>\<^verbatim>\<open>String.prototype.endsWith\<close> and \<^verbatim>\<open>startsWith\<close>.\<close>

definition endsWith :: "string \<Rightarrow> string \<Rightarrow> bool" where
  "endsWith s suffix =
     (length suffix \<le> length s \<and> drop (length s - length suffix) s = suffix)"

definition startsWith :: "string \<Rightarrow> string \<Rightarrow> bool" where
  "startsWith s prefix = (take (length prefix) s = prefix)"

subsection \<open>Errors\<close>

text \<open>An \<^verbatim>\<open>APIError\<close> built from \<^verbatim>\<open>response.error\<close>, with the fields
  \<^verbatim>\<open>handleError\<close> reads.\<close>

record api_error =
  code :: int
  redirectUri :: jsval
  captchaSid :: jsval
  captchaImg :: jsval

text \<open>What a future is rejected with: the error caught around \<^verbatim>\<open>fetch\<close>, an
  \<^verbatim>\<open>APIError\<close>, or the \<^verbatim>\<open>Error\<close> a captcha handler passes as its key.\<close>

datatype failure = FetchError string | APIError api_error | KeyError string

text \<open>What a synchronous call throws.\<close>

datatype thrown = VKError string | TypeError string

subsection \<open>Requests\<close>

text \<open>The parsed body of a reply: an object that may hold the keys
  \<^verbatim>\<open>error\<close>, \<^verbatim>\<open>response\<close> and \<^verbatim>\<open>execute_errors\<close>.\<close>

record api_response =
  error :: "api_error option"
  response :: "json option"
  execute_errors :: "json list option"

datatype execute_error = ExecuteError json

text \<open>What \<^verbatim>\<open>request.resolve\<close> is called with: \<^verbatim>\<open>response.response\<close>, the whole
  body when it has no key \<^verbatim>\<open>response\<close>, or for an execute method the object
  \<^verbatim>\<open>{ response, errors }\<close>.\<close>

datatype result_value =
    Payload json
  | Envelope api_response
  | Composite "json option" "execute_error list"

datatype 'v future = Pending | Resolved 'v | Rejected failure

text \<open>Settling a promise a second time does nothing.\<close>

definition settle :: "'v future \<Rightarrow> 'v future \<Rightarrow> 'v future" where
  "settle new old = (case old of Pending \<Rightarrow> new | _ \<Rightarrow> old)"

text \<open>
  Modelled from the spec: the class \<^verbatim>\<open>Request\<close> (\<^verbatim>\<open>./request\<close>) is not among the
  sources. Section 3 of the specification gives it a method name, a mutable
  parameter mapping, an attempt counter that starts at 0, a result future that
  is settled once, and an optional challenge future; \<^verbatim>\<open>index.mjs\<close> reads them as
  \<^verbatim>\<open>method\<close>, \<^verbatim>\<open>params\<close>, \<^verbatim>\<open>attempts\<close>, \<^verbatim>\<open>promise\<close>/\<^verbatim>\<open>resolve\<close>/\<^verbatim>\<open>reject\<close> and
  \<^verbatim>\<open>captcha\<close>. The field \<open>captcha\<close> is \<open>None\<close> while \<^verbatim>\<open>'captcha' in request\<close> is
  false.
\<close>

record request =
  method_name :: string
  params :: "string \<rightharpoonup> jsval"
  attempts :: int
  promise :: "result_value future"
  captcha :: "unit future option"

definition new_request :: "string \<Rightarrow> (string \<rightharpoonup> jsval) \<Rightarrow> request" where
  "new_request m p =
     \<lparr>method_name = m, params = p, attempts = 0, promise = Pending, captcha = None\<rparr>"

definition resolve :: "result_value \<Rightarrow> request \<Rightarrow> request" where
  "resolve v r = r\<lparr>promise := settle (Resolved v) (promise r)\<rparr>"

definition reject :: "failure \<Rightarrow> request \<Rightarrow> request" where
  "reject e r = r\<lparr>promise := settle (Rejected e) (promise r)\<rparr>"

text \<open>
  Modelled from the spec: \<^verbatim>\<open>Request.addAttempt\<close> is not among the sources.
  Section 4.4 says "increment attempts; if attempts <= retryCeiling", so it
  increments the counter and returns the incremented value.
\<close>

definition addAttempt :: "request \<Rightarrow> int \<times> request" where
  "addAttempt r = (attempts r + 1, r\<lparr>attempts := attempts r + 1\<rparr>)"

text \<open>\<^verbatim>\<open>if ('captcha' in request) request.captcha.reject(error)\<close>, and the same
  with \<^verbatim>\<open>resolve()\<close>.\<close>

definition captcha_reject :: "failure \<Rightarrow> request \<Rightarrow> request" where
  "captcha_reject e r =
     (case captcha r of
        None \<Rightarrow> r
      | Some c \<Rightarrow> r\<lparr>captcha := Some (settle (Rejected e) c)\<rparr>)"

definition captcha_resolve :: "request \<Rightarrow> request" where
  "captcha_resolve r =
     (case captcha r of
        None \<Rightarrow> r
      | Some c \<Rightarrow> r\<lparr>captcha := Some (settle (Resolved ()) c)\<rparr>)"

subsection \<open>The client's state\<close>

text \<open>A \<^verbatim>\<open>Request\<close> is an object: the queue and the handlers in flight hold
  references to it, and the store maps each reference to the object.\<close>

type_synonym rid = nat

text \<open>The dispatch policies of \<^verbatim>\<open>./workers\<close>, by name, and a property that the
  table \<^verbatim>\<open>requestHandlers\<close> inherits from \<^verbatim>\<open>Object.prototype\<close>.\<close>

datatype handler = Sequential | Parallel | ParallelSelected | Inherited string

record captcha_payload =
  ptype :: string
  src :: jsval
  sid :: jsval
  request :: rid

text \<open>What a segment leaves waiting.\<close>

datatype await =
    RetryDelay rid ms
  | BackoffDelay rid ms
  | Verification rid api_error
  | CooldownDelay ms
  | CaptchaHandler captcha_payload
  | HandlerCall handler ms
  | Timeout handler ms

record api =
  queue :: "rid list"
  started :: bool
  suspended :: bool
  baseUrl :: string
  token :: jsval
  heap :: "rid \<Rightarrow> request"
  nextId :: rid
  awaiting :: "await list"

text \<open>
  What the class reads from outside: the constants of \<^verbatim>\<open>../utils/constants\<close>
  (not among the sources, so they are parameters), the options of the \<^verbatim>\<open>VK\<close>
  object, and whether \<^verbatim>\<open>vk.captchaHandler\<close> is a function (\<open>True\<close>) or
  \<^verbatim>\<open>null\<close>.
\<close>

record env =
  MINIMUM_TIME_INTERVAL_API :: int
  BASE_URL_API :: string
  TOO_MANY_REQUESTS :: int
  CAPTCHA_REQUIRED :: int
  USER_VALIDATION_REQUIRED :: int
  captchaTypes_API :: string
  apiLimit :: int
  apiMode :: "string option"
  apiAttempts :: int
  apiWait :: int
  captchaHandler :: bool

subsection \<open>\<^verbatim>\<open>constructor\<close>, \<^verbatim>\<open>get baseUrl\<close>, \<^verbatim>\<open>set baseUrl\<close>\<close>

text \<open>No request exists yet: what the store holds at a reference is read only
  after \<^verbatim>\<open>enqueue\<close> has written it.\<close>

definition constructor :: "env \<Rightarrow> jsval \<Rightarrow> api" where
  "constructor E tok =
     \<lparr>queue = [], started = False, suspended = False, baseUrl = BASE_URL_API E,
      token = tok, heap = (\<lambda>_. new_request [] Map.empty), nextId = 0, awaiting = []\<rparr>"

definition get_baseUrl :: "api \<Rightarrow> string" where
  "get_baseUrl s = baseUrl s"

definition set_baseUrl :: "string \<Rightarrow> api \<Rightarrow> api" where
  "set_baseUrl url s =
     (let url' = (if \<not> endsWith url ''/'' then url @ ''/'' else url)
      in s\<lparr>baseUrl := url'\<rparr>)"

subsection \<open>\<^verbatim>\<open>getRequestHandler\<close>\<close>

text \<open>
  \<^verbatim>\<open>requestHandlers\<close> is an object literal with the three keys \<^verbatim>\<open>sequential\<close>,
  \<^verbatim>\<open>parallel\<close> and \<^verbatim>\<open>parallel_selected\<close>. \<^verbatim>\<open>requestHandlers[mode]\<close> is a property
  read: a key the object does not own is looked up in its prototype,
  \<^verbatim>\<open>Object.prototype\<close>, whose properties are listed here, and only a key found
  in neither gives \<^verbatim>\<open>undefined\<close>.
\<close>

definition objectPrototype :: "string list" where
  "objectPrototype =
     [''constructor'', ''hasOwnProperty'', ''isPrototypeOf'', ''propertyIsEnumerable'',
      ''toLocaleString'', ''toString'', ''valueOf'', ''__proto__'',
      ''__defineGetter__'', ''__defineSetter__'', ''__lookupGetter__'', ''__lookupSetter__'']"

definition requestHandlers :: "string \<Rightarrow> handler option" where
  "requestHandlers k =
     (if k = ''sequential'' then Some Sequential
      else if k = ''parallel'' then Some Parallel
      else if k = ''parallel_selected'' then Some ParallelSelected
      else if k \<in> set objectPrototype then Some (Inherited k)
      else None)"

text \<open>The parameter defaults to \<^verbatim>\<open>'sequential'\<close> when it is \<^verbatim>\<open>undefined\<close> (\<open>None\<close>).
  Every value the table can give is a function or an object, hence truthy.\<close>

definition getRequestHandler :: "string option \<Rightarrow> thrown + handler" where
  "getRequestHandler mode =
     (case requestHandlers (case mode of None \<Rightarrow> ''sequential'' | Some m \<Rightarrow> m) of
        None \<Rightarrow> Inl (VKError ''Unsuported api mode'')
      | Some h \<Rightarrow> Inr h)"

subsection \<open>\<^verbatim>\<open>worker\<close>\<close>

text \<open>
  \<^verbatim>\<open>handler.call(this, () => { setTimeout(work, interval); })\<close>. The three policies
  are not among the sources: the call is recorded as \<open>HandlerCall\<close>, and what
  the policy does with the queue and with its continuation is left to the
  policy. Every call of \<^verbatim>\<open>worker\<close> in the class is the last statement of its
  segment, so nothing of the class runs between the call and the policy's own
  first segment. A property inherited from \<^verbatim>\<open>Object.prototype\<close> never calls the
  continuation; \<^verbatim>\<open>__proto__\<close> is an object without \<^verbatim>\<open>call\<close>, and
  \<^verbatim>\<open>__defineGetter__\<close> and \<^verbatim>\<open>__defineSetter__\<close> refuse their arguments.
\<close>

definition call_handler :: "handler \<Rightarrow> ms \<Rightarrow> api \<Rightarrow> thrown option \<times> api" where
  "call_handler h interval s =
     (case h of
        Inherited k \<Rightarrow>
          (if k = ''__proto__'' then (Some (TypeError ''handler.call is not a function''), s)
           else if k = ''__defineGetter__'' \<or> k = ''__defineSetter__''
             then (Some (TypeError ''Expecting function''), s)
           else (None, s))
      | _ \<Rightarrow> (None, s\<lparr>awaiting := awaiting s @ [HandlerCall h interval]\<rparr>))"

text \<open>One tick: the closure \<^verbatim>\<open>work\<close>.\<close>

definition work :: "handler \<Rightarrow> ms \<Rightarrow> api \<Rightarrow> thrown option \<times> api" where
  "work h interval s =
     (if queue s = [] \<or> suspended s then (None, s\<lparr>started := False\<rparr>)
      else call_handler h interval s)"

text \<open>\<^verbatim>\<open>const interval = Math.round(MINIMUM_TIME_INTERVAL_API / apiLimit)\<close>.\<close>

definition interval :: "env \<Rightarrow> ms" where
  "interval E = Round (Quot (Const (MINIMUM_TIME_INTERVAL_API E)) (Const (apiLimit E)))"

text \<open>\<^verbatim>\<open>started\<close> is set before \<^verbatim>\<open>getRequestHandler\<close> is called, so it stays set
  when that call throws.\<close>

definition worker :: "env \<Rightarrow> api \<Rightarrow> thrown option \<times> api" where
  "worker E s =
     (if started s then (None, s)
      else
        (case getRequestHandler (apiMode E) of
           Inl e \<Rightarrow> (Some e, s\<lparr>started := True\<rparr>)
         | Inr h \<Rightarrow> work h (interval E) (s\<lparr>started := True\<rparr>)))"

text \<open>The timer set by the continuation fires: \<^verbatim>\<open>work\<close> runs again.\<close>

definition timeout_fires :: "handler \<Rightarrow> ms \<Rightarrow> api \<Rightarrow> thrown option \<times> api" where
  "timeout_fires h i s = work h i (s\<lparr>awaiting := remove1 (Timeout h i) (awaiting s)\<rparr>)"

subsection \<open>\<^verbatim>\<open>callWithRequest\<close>, \<^verbatim>\<open>enqueue\<close>, \<^verbatim>\<open>requeue\<close>\<close>

definition callWithRequest :: "env \<Rightarrow> rid \<Rightarrow> api \<Rightarrow> thrown option \<times> api" where
  "callWithRequest E rq s = worker E (s\<lparr>queue := queue s @ [rq]\<rparr>)"

definition enqueue :: "env \<Rightarrow> string \<Rightarrow> (string \<rightharpoonup> jsval) \<Rightarrow> api \<Rightarrow> thrown option \<times> api" where
  "enqueue E m p s =
     callWithRequest E (nextId s)
       (s\<lparr>heap := (heap s)(nextId s := new_request m p), nextId := Suc (nextId s)\<rparr>)"

definition requeue :: "env \<Rightarrow> rid \<Rightarrow> api \<Rightarrow> thrown option \<times> api" where
  "requeue E rq s = worker E (s\<lparr>queue := rq # queue s\<rparr>)"

text \<open>A method called on the object behind a reference.\<close>

definition update :: "rid \<Rightarrow> (request \<Rightarrow> request) \<Rightarrow> api \<Rightarrow> api" where
  "update rq f s = s\<lparr>heap := (heap s)(rq := f (heap s rq))\<rparr>"

subsection \<open>\<^verbatim>\<open>callMethod\<close>, after \<^verbatim>\<open>fetch\<close>\<close>

text \<open>
  The \<^verbatim>\<open>catch\<close> block: \<^verbatim>\<open>fetch\<close> or \<^verbatim>\<open>response.json()\<close> has thrown \<open>e\<close>. The segment
  ends at \<^verbatim>\<open>await delay(options.apiWait)\<close> or with the rejections.
\<close>

definition callMethod_catch :: "env \<Rightarrow> rid \<Rightarrow> failure \<Rightarrow> api \<Rightarrow> thrown option \<times> api" where
  "callMethod_catch E rq e s =
     (let (n, r) = addAttempt (heap s rq);
          s1 = s\<lparr>heap := (heap s)(rq := r)\<rparr>
      in if n \<le> apiAttempts E
         then (None, s1\<lparr>awaiting := awaiting s1 @ [RetryDelay rq (Const (apiWait E))]\<rparr>)
         else (None, update rq (reject e) (update rq (captcha_reject e) s1)))"

text \<open>After the delay: \<^verbatim>\<open>this.requeue(request); return\<close>.\<close>

definition callMethod_restart :: "env \<Rightarrow> rid \<Rightarrow> ms \<Rightarrow> api \<Rightarrow> thrown option \<times> api" where
  "callMethod_restart E rq d s =
     requeue E rq (s\<lparr>awaiting := remove1 (RetryDelay rq d) (awaiting s)\<rparr>)"

subsection \<open>\<^verbatim>\<open>handleError\<close>\<close>

text \<open>The first segment: up to the first \<^verbatim>\<open>await\<close>, or to the end when there is
  none. The call of the captcha handler is recorded; the handler answers by
  calling the function it was given (\<open>captcha_retry\<close> below).\<close>

definition handleError :: "env \<Rightarrow> rid \<Rightarrow> api_error \<Rightarrow> api \<Rightarrow> thrown option \<times> api" where
  "handleError E rq err s =
     (if code err = TOO_MANY_REQUESTS E then
        (if suspended s then requeue E rq s
         else (None, s\<lparr>suspended := True,
                 awaiting := awaiting s @
                   [BackoffDelay rq (Plus (Quot (Const (MINIMUM_TIME_INTERVAL_API E))
                                                (Const (apiLimit E))) (Const 50))]\<rparr>))
      else
        (let s1 = update rq (captcha_reject (APIError err)) s in
         if code err = USER_VALIDATION_REQUIRED E then
           (case (if suspended s1 then requeue E rq s1 else (None, s1)) of
              (Some t, s2) \<Rightarrow> (Some t, s2)
            | (None, s2) \<Rightarrow>
                (None, s2\<lparr>suspended := True,
                   awaiting := awaiting s2 @ [Verification rq err]\<rparr>))
         else
           (let isCaptcha = (code err = CAPTCHA_REQUIRED E) in
            if (isCaptcha \<and> \<not> captchaHandler E) \<or> \<not> isCaptcha
            then (None, update rq (reject (APIError err)) s1)
            else (None, s1\<lparr>awaiting := awaiting s1 @
                    [CaptchaHandler \<lparr>ptype = captchaTypes_API E, src = captchaImg err,
                                      sid = captchaSid err, request = rq\<rparr>]\<rparr>))))"

text \<open>The backoff delay is over: \<^verbatim>\<open>this.suspended = false; this.requeue(request)\<close>.\<close>

definition backoff_elapsed :: "env \<Rightarrow> rid \<Rightarrow> ms \<Rightarrow> api \<Rightarrow> thrown option \<times> api" where
  "backoff_elapsed E rq d s =
     requeue E rq (s\<lparr>suspended := False, awaiting := remove1 (BackoffDelay rq d) (awaiting s)\<rparr>)"

text \<open>\<^verbatim>\<open>verification.run\<close> has resolved with \<^verbatim>\<open>{ token }\<close>.\<close>

definition verification_passed :: "env \<Rightarrow> rid \<Rightarrow> api_error \<Rightarrow> jsval \<Rightarrow> api \<Rightarrow> thrown option \<times> api" where
  "verification_passed E rq err tok s =
     requeue E rq (s\<lparr>token := tok, suspended := False,
                     awaiting := remove1 (Verification rq err) (awaiting s)\<rparr>)"

text \<open>\<^verbatim>\<open>verification.run\<close> has failed: the \<^verbatim>\<open>catch\<close> block up to
  \<^verbatim>\<open>await delay(15e3)\<close>. The error it was rejected with is only logged.\<close>

definition verification_failed :: "env \<Rightarrow> rid \<Rightarrow> api_error \<Rightarrow> failure \<Rightarrow> api \<Rightarrow> thrown option \<times> api" where
  "verification_failed E rq err verificationError s =
     (let s1 = update rq (reject (APIError err))
                 (s\<lparr>awaiting := remove1 (Verification rq err) (awaiting s)\<rparr>)
      in (None, s1\<lparr>awaiting := awaiting s1 @ [CooldownDelay (Const 15000)]\<rparr>))"

text \<open>The cooldown is over: \<^verbatim>\<open>this.suspended = false; this.worker()\<close>.\<close>

definition cooldown_elapsed :: "env \<Rightarrow> ms \<Rightarrow> api \<Rightarrow> thrown option \<times> api" where
  "cooldown_elapsed E d s =
     worker E (s\<lparr>suspended := False, awaiting := remove1 (CooldownDelay d) (awaiting s)\<rparr>)"

text \<open>The captcha handler calls the function it was given with \<open>key\<close>.\<close>

definition captcha_retry :: "env \<Rightarrow> captcha_payload \<Rightarrow> jsval \<Rightarrow> api \<Rightarrow> thrown option \<times> api" where
  "captcha_retry E payload key s =
     (case key of
        ErrorObj m \<Rightarrow> (None, update (request payload) (reject (KeyError m)) s)
      | _ \<Rightarrow>
          requeue E (request payload)
            (update (request payload)
               (\<lambda>r. r\<lparr>params := (params r)(''captcha_sid'' \<mapsto> sid payload, ''captcha_key'' \<mapsto> key),
                       captcha := Some Pending\<rparr>) s))"

subsection \<open>\<^verbatim>\<open>callMethod\<close>, after a reply\<close>

text \<open>The body of the reply is an object. \<^verbatim>\<open>this.handleError(...)\<close> is not
  awaited: what it throws rejects its own promise and does not reach
  \<^verbatim>\<open>callMethod\<close>. The method name was read before \<^verbatim>\<open>fetch\<close>; nothing writes it.\<close>

definition callMethod_reply :: "env \<Rightarrow> rid \<Rightarrow> api_response \<Rightarrow> api \<Rightarrow> thrown option \<times> api" where
  "callMethod_reply E rq resp s =
     (case error resp of
        Some e \<Rightarrow> (None, snd (handleError E rq e s))
      | None \<Rightarrow>
          (let s1 = update rq captcha_resolve s in
           if startsWith (method_name (heap s rq)) ''execute''
           then (None, update rq
                   (resolve (Composite (response resp)
                      (map ExecuteError (case execute_errors resp of None \<Rightarrow> [] | Some es \<Rightarrow> es)))) s1)
           else (None, update rq
                   (resolve (case response resp of Some v \<Rightarrow> Payload v | None \<Rightarrow> Envelope resp)) s1)))"

subsection \<open>Scheduler loops and runs of the client\<close>

text \<open>A scheduler loop is alive while a policy holds its continuation or while
  the timer of the continuation is set.\<close>

fun is_loop :: "await \<Rightarrow> bool" where
  "is_loop (HandlerCall _ _) = True"
| "is_loop (Timeout _ _) = True"
| "is_loop _ = False"

definition loops :: "api \<Rightarrow> nat" where
  "loops s = length (filter is_loop (awaiting s))"

fun is_backoff :: "await \<Rightarrow> bool" where
  "is_backoff (BackoffDelay _ _) = True"
| "is_backoff _ = False"

definition backoffs :: "api \<Rightarrow> await list" where
  "backoffs s = filter is_backoff (awaiting s)"

definition policy :: "handler \<Rightarrow> bool" where
  "policy h = (h = Sequential \<or> h = Parallel \<or> h = ParallelSelected)"

text \<open>
  Modelled from the spec: the dispatch policies (\<^verbatim>\<open>./workers\<close>) are not among
  the sources. Section 4.2 says that a policy is invoked once per tick with a
  continuation and "must eventually invoke the continuation to schedule the
  next tick", and section 3 that \<^verbatim>\<open>started\<close> flips only in the scheduler loop.
  So in a run of the client a policy may change the queue and start calls
  (rule \<open>segment\<close>: anything that leaves \<^verbatim>\<open>started\<close> and the loops alone, which
  also covers the segments of the class outside \<^verbatim>\<open>worker\<close>), and it calls its
  continuation at most once (rule \<open>continuation\<close>). The rules \<open>call_worker\<close>
  and \<open>tick\<close> are the class's own \<^verbatim>\<open>worker\<close> and \<^verbatim>\<open>work\<close>.
\<close>

inductive run :: "env \<Rightarrow> api \<Rightarrow> bool" for E :: env where
  start: "run E (constructor E tok)"
| segment: "run E s \<Longrightarrow> started s' = started s \<Longrightarrow>
     filter is_loop (awaiting s') = filter is_loop (awaiting s) \<Longrightarrow> run E s'"
| call_worker: "run E s \<Longrightarrow> run E (snd (worker E s))"
| tick: "run E s \<Longrightarrow> Timeout h i \<in> set (awaiting s) \<Longrightarrow> run E (snd (timeout_fires h i s))"
| continuation: "run E s \<Longrightarrow> HandlerCall h i \<in> set (awaiting s) \<Longrightarrow>
     run E (s\<lparr>awaiting := remove1 (HandlerCall h i) (awaiting s) @ [Timeout h i]\<rparr>)"

subsection \<open>A configuration, errors and states to evaluate on\<close>

definition example_env :: env where
  "example_env =
     \<lparr>MINIMUM_TIME_INTERVAL_API = 1133, BASE_URL_API = ''https://api.vk.com/method/'',
      TOO_MANY_REQUESTS = 6, CAPTCHA_REQUIRED = 14, USER_VALIDATION_REQUIRED = 17,
      captchaTypes_API = ''API'', apiLimit = 3, apiMode = Some ''parallel'',
      apiAttempts = 3, apiWait = 3000, captchaHandler = True\<rparr>"

definition rate_limit_error :: api_error where
  "rate_limit_error =
     \<lparr>code = 6, redirectUri = Undefined, captchaSid = Undefined, captchaImg = Undefined\<rparr>"

definition captcha_error :: api_error where
  "captcha_error =
     \<lparr>code = 14, redirectUri = Undefined, captchaSid = Str ''588'',
      captchaImg = Str ''https://api.vk.com/captcha.php?sid=588''\<rparr>"

definition validation_error :: api_error where
  "validation_error =
     \<lparr>code = 17, redirectUri = Str ''https://m.vk.com/login?act=security_check'',
      captchaSid = Undefined, captchaImg = Undefined\<rparr>"

text \<open>A client that has just been constructed, and one with the request 0 in
  its queue and no loop running.\<close>

definition fresh :: api where
  "fresh = constructor example_env (Str ''token'')"

definition idle_with_one :: api where
  "idle_with_one = fresh\<lparr>queue := [0], nextId := 1\<rparr>"

text \<open>
  Two requests were dispatched and both are in flight: the queue is empty, the
  loop's timer is set, and the reply to request 0 asked for a validation, which
  is running and holds \<^verbatim>\<open>suspended\<close>. The reply to request 1 is about to arrive.
\<close>

definition two_in_flight :: api where
  "two_in_flight =
     \<lparr>queue = [], started = True, suspended = True, baseUrl = ''https://api.vk.com/method/'',
      token = Str ''token'',
      heap = (\<lambda>_. new_request ''users.get'' Map.empty),
      nextId = 2,
      awaiting = [Timeout Parallel (interval example_env), Verification 0 validation_error]\<rparr>"

text \<open>Request 0 has failed three times already; request 0 is an execute call.\<close>

definition exhausted :: api where
  "exhausted = update 0 (\<lambda>r. r\<lparr>attempts := 3\<rparr>) fresh"

definition executing :: api where
  "executing = update 0 (\<lambda>r. r\<lparr>method_name := ''execute.getAll''\<rparr>) fresh"

definition partial_reply :: api_response where
  "partial_reply =
     \<lparr>error = None, response = Some (JArr [JNum 1, JBool False]),
      execute_errors = Some [JObj [(''method'', JStr ''users.get''), (''error_code'', JNum 113)]]\<rparr>"

section \<open>Properties\<close>

subsection \<open>What the operations leave alone\<close>

lemma update_simps [simp]:
  "heap (update rq f s) = (heap s)(rq := f (heap s rq))"
  "queue (update rq f s) = queue s"
  "awaiting (update rq f s) = awaiting s"
  "started (update rq f s) = started s"
  "suspended (update rq f s) = suspended s"
  by (simp_all add: update_def)

lemma settle_simps [simp]:
  "settle new Pending = new"
  "settle new (Resolved v) = Resolved v"
  "settle new (Rejected e) = Rejected e"
  by (simp_all add: settle_def)

lemma reject_simps [simp]:
  "promise (reject e r) = settle (Rejected e) (promise r)"
  "captcha (reject e r) = captcha r"
  "attempts (reject e r) = attempts r"
  "params (reject e r) = params r"
  by (simp_all add: reject_def)

lemma resolve_simps [simp]:
  "promise (resolve v r) = settle (Resolved v) (promise r)"
  "captcha (resolve v r) = captcha r"
  by (simp_all add: resolve_def)

lemma captcha_reject_simps [simp]:
  "promise (captcha_reject e r) = promise r"
  "captcha (captcha_reject e r) = map_option (settle (Rejected e)) (captcha r)"
  "attempts (captcha_reject e r) = attempts r"
  by (simp_all add: captcha_reject_def split: option.splits)

lemma captcha_resolve_simps [simp]:
  "promise (captcha_resolve r) = promise r"
  "captcha (captcha_resolve r) = map_option (settle (Resolved ())) (captcha r)"
  by (simp_all add: captcha_resolve_def split: option.splits)

lemma call_handler_frame [simp]:
  "queue (snd (call_handler h i s)) = queue s"
  "heap (snd (call_handler h i s)) = heap s"
  "suspended (snd (call_handler h i s)) = suspended s"
  "started (snd (call_handler h i s)) = started s"
  by (simp_all add: call_handler_def split: handler.splits)

lemma work_frame [simp]:
  "queue (snd (work h i s)) = queue s"
  "heap (snd (work h i s)) = heap s"
  "suspended (snd (work h i s)) = suspended s"
  by (simp_all add: work_def)

lemma worker_frame [simp]:
  "queue (snd (worker E s)) = queue s"
  "heap (snd (worker E s)) = heap s"
  "suspended (snd (worker E s)) = suspended s"
  by (simp_all add: worker_def split: sum.splits)

lemma requeue_frame [simp]:
  "queue (snd (requeue E rq s)) = rq # queue s"
  "heap (snd (requeue E rq s)) = heap s"
  "suspended (snd (requeue E rq s)) = suspended s"
  by (simp_all add: requeue_def)

lemma worker_started: "started s \<Longrightarrow> worker E s = (None, s)"
  by (simp add: worker_def)

lemma worker_starts:
  assumes "\<not> started s" and "queue s \<noteq> []" and "\<not> suspended s"
    and "getRequestHandler (apiMode E) = Inr h" and "policy h"
  shows "worker E s =
           (None, s\<lparr>started := True, awaiting := awaiting s @ [HandlerCall h (interval E)]\<rparr>)"
  using assms by (auto simp: worker_def work_def call_handler_def policy_def)

lemma getRequestHandler_parallel: "getRequestHandler (Some ''parallel'') = Inr Parallel"
  by (simp add: getRequestHandler_def requestHandlers_def)

lemma endsWith_slash_iff: "endsWith u ''/'' \<longleftrightarrow> u \<noteq> [] \<and> last u = CHR ''/''"
proof (cases u rule: rev_cases)
  case Nil
  then show ?thesis by (simp add: endsWith_def)
next
  case (snoc ys y)
  then show ?thesis by (auto simp: endsWith_def)
qed

subsection \<open>C9: the base URL\<close>

text \<open>
  C9. After the setter of \<^verbatim>\<open>baseUrl\<close> has run on any string, the getter returns a
  string that ends with a slash: the given string itself when it already ends
  with one, and the given string followed by a slash otherwise.
\<close>

theorem C9_baseUrl_normalized:
  "endsWith (get_baseUrl (set_baseUrl url s)) ''/'' \<and>
   get_baseUrl (set_baseUrl url s) = (if endsWith url ''/'' then url else url @ ''/'')"
  by (simp add: get_baseUrl_def set_baseUrl_def Let_def endsWith_slash_iff)

theorem C9_baseUrl_normalized_witness:
  "get_baseUrl (set_baseUrl ''https://api.vk.com/method'' fresh) = ''https://api.vk.com/method/'' \<and>
   get_baseUrl (set_baseUrl ''http://localhost/'' fresh) = ''http://localhost/''"
  using C9_baseUrl_normalized [of "''https://api.vk.com/method''" fresh]
    C9_baseUrl_normalized [of "''http://localhost/''" fresh]
  by (simp add: endsWith_def)

subsection \<open>C5: a tick that finds nothing to do\<close>

text \<open>
  C5. A tick that finds the queue empty or \<^verbatim>\<open>suspended\<close> set clears \<^verbatim>\<open>started\<close> and
  does nothing else: the queue keeps every request, no policy is invoked and no
  timer is set, whether the tick is the first of a loop or one fired by the
  timer. So a \<^verbatim>\<open>worker\<close> called while \<^verbatim>\<open>suspended\<close> is set invokes no policy either,
  and no transport call is started by the loop.
\<close>

theorem C5_tick_idle:
  assumes "queue s = [] \<or> suspended s"
  shows
    "work h i s = (None, s\<lparr>started := False\<rparr>) \<and>
     timeout_fires h i s =
       (None, s\<lparr>awaiting := remove1 (Timeout h i) (awaiting s), started := False\<rparr>) \<and>
     queue (snd (work h i s)) = queue s \<and>
     awaiting (snd (work h i s)) = awaiting s \<and>
     (suspended s \<longrightarrow>
        awaiting (snd (worker E s)) = awaiting s \<and> queue (snd (worker E s)) = queue s)"
  using assms by (auto simp: work_def timeout_fires_def worker_def split: sum.splits)

theorem C5_tick_idle_witness:
  "work Parallel (interval example_env) (fresh\<lparr>started := True\<rparr>) = (None, fresh) \<and>
   work Parallel (interval example_env) (idle_with_one\<lparr>started := True, suspended := True\<rparr>) =
     (None, idle_with_one\<lparr>suspended := True\<rparr>) \<and>
   awaiting (snd (worker example_env (idle_with_one\<lparr>suspended := True\<rparr>))) = []"
proof -
  have q: "queue (fresh\<lparr>started := True\<rparr>) = [] \<or> suspended (fresh\<lparr>started := True\<rparr>)"
    by (simp add: fresh_def constructor_def)
  have u: "queue (idle_with_one\<lparr>started := True, suspended := True\<rparr>) = [] \<or>
           suspended (idle_with_one\<lparr>started := True, suspended := True\<rparr>)"
    by simp
  have v: "queue (idle_with_one\<lparr>suspended := True\<rparr>) = [] \<or> suspended (idle_with_one\<lparr>suspended := True\<rparr>)"
    by simp
  show ?thesis
    using C5_tick_idle [OF q, of Parallel "interval example_env" example_env]
      C5_tick_idle [OF u, of Parallel "interval example_env" example_env]
      C5_tick_idle [OF v, of Parallel "interval example_env" example_env]
    by (simp add: fresh_def constructor_def idle_with_one_def)
qed

subsection \<open>C4: one scheduler loop\<close>

lemma loops_remove1:
  "x \<in> set xs \<Longrightarrow> is_loop x \<Longrightarrow>
     Suc (length (filter is_loop (remove1 x xs))) = length (filter is_loop xs)"
  by (induction xs) auto

lemma loops_work:
  "loops s = 0 \<Longrightarrow> started s \<Longrightarrow>
     loops (snd (work h i s)) \<le> 1 \<and> (0 < loops (snd (work h i s)) \<longrightarrow> started (snd (work h i s)))"
  by (simp add: work_def call_handler_def loops_def split: handler.splits)

lemma loops_worker:
  assumes "loops s \<le> 1" and "0 < loops s \<longrightarrow> started s"
  shows "loops (snd (worker E s)) \<le> 1 \<and>
         (0 < loops (snd (worker E s)) \<longrightarrow> started (snd (worker E s)))"
proof (cases "started s")
  case True
  with assms show ?thesis by (simp add: worker_def)
next
  case False
  with assms have z: "loops s = 0" by auto
  show ?thesis
  proof (cases "getRequestHandler (apiMode E)")
    case (Inl e)
    with False z show ?thesis by (simp add: worker_def loops_def)
  next
    case (Inr h)
    have "loops (s\<lparr>started := True\<rparr>) = 0" using z by (simp add: loops_def)
    from loops_work [OF this] Inr False show ?thesis by (simp add: worker_def)
  qed
qed

text \<open>
  In every run of the client at most one loop is alive, and \<^verbatim>\<open>started\<close> is set
  while it is: the guard of \<^verbatim>\<open>worker\<close> is what keeps a second one from starting.
\<close>

lemma single_loop_invariant:
  "run E s \<Longrightarrow> loops s \<le> 1 \<and> (0 < loops s \<longrightarrow> started s)"
proof (induction rule: run.induct)
  case (start tok)
  show ?case by (simp add: constructor_def loops_def)
next
  case (segment s s')
  then show ?case by (simp add: loops_def)
next
  case (call_worker s)
  from call_worker.IH show ?case by (intro loops_worker) simp_all
next
  case (tick s h i)
  let ?s = "s\<lparr>awaiting := remove1 (Timeout h i) (awaiting s)\<rparr>"
  from tick have "Suc (loops ?s) = loops s"
    using loops_remove1 [of "Timeout h i" "awaiting s"] by (simp add: loops_def)
  with tick have "loops ?s = 0" and "started ?s" by auto
  from loops_work [OF this] show ?case by (simp add: timeout_fires_def)
next
  case (continuation s h i)
  from continuation
  have "Suc (length (filter is_loop (remove1 (HandlerCall h i) (awaiting s)))) = loops s"
    using loops_remove1 [of "HandlerCall h i" "awaiting s"] by (simp add: loops_def)
  with continuation show ?case by (auto simp: loops_def)
qed

text \<open>Every segment of the class takes a run to a run.\<close>

lemma run_field:
  "run E s \<Longrightarrow> run E (s\<lparr>queue := q\<rparr>)"
  "run E s \<Longrightarrow> run E (s\<lparr>suspended := b\<rparr>)"
  "run E s \<Longrightarrow> run E (s\<lparr>heap := hp\<rparr>)"
  "run E s \<Longrightarrow> run E (s\<lparr>token := t\<rparr>)"
  "run E s \<Longrightarrow> run E (s\<lparr>nextId := n\<rparr>)"
  "run E s \<Longrightarrow> run E (s\<lparr>baseUrl := u\<rparr>)"
  by (erule run.segment; simp)+

lemma filter_loop_remove1:
  "\<not> is_loop a \<Longrightarrow> filter is_loop (remove1 a xs) = filter is_loop xs"
  by (induction xs) auto

lemma run_await:
  "run E s \<Longrightarrow> \<not> is_loop a \<Longrightarrow> run E (s\<lparr>awaiting := awaiting s @ [a]\<rparr>)"
  by (erule run.segment) simp_all

lemma run_update: "run E s \<Longrightarrow> run E (update rq f s)"
  by (simp add: update_def run_field)

lemma run_requeue: "run E s \<Longrightarrow> run E (snd (requeue E rq s))"
  by (simp add: requeue_def run.call_worker run_field)

lemma run_requeue_eq: "run E s \<Longrightarrow> requeue E rq s = (t, s') \<Longrightarrow> run E s'"
  using run_requeue [of E s rq] by simp

lemma run_enqueue: "run E s \<Longrightarrow> run E (snd (enqueue E m p s))"
  by (simp add: enqueue_def callWithRequest_def run.call_worker run_field)

lemma run_handleError: "run E s \<Longrightarrow> run E (snd (handleError E rq err s))"
proof -
  assume r: "run E s"
  let ?s1 = "update rq (captcha_reject (APIError err)) s"
  have r1: "run E ?s1" using r by (rule run_update)
  show ?thesis
  proof (cases "code err = TOO_MANY_REQUESTS E")
    case True
    then show ?thesis
      using r by (auto simp: handleError_def run_requeue intro: run.segment)
  next
    case False
    show ?thesis
    proof (cases "code err = USER_VALIDATION_REQUIRED E")
      case True
      obtain t s2 where q: "(if suspended ?s1 then requeue E rq ?s1 else (None, ?s1)) = (t, s2)"
        by (cases "if suspended ?s1 then requeue E rq ?s1 else (None, ?s1)") auto
      have r2: "run E s2"
        using q r1 by (auto split: if_splits intro: run_requeue_eq)
      have "run E (s2\<lparr>suspended := True, awaiting := awaiting s2 @ [Verification rq err]\<rparr>)"
        using r2 by (rule run.segment) simp_all
      with r2 show ?thesis
        using False True q by (cases t) (simp_all add: handleError_def Let_def)
    next
      case v: False
      have "run E (update rq (reject (APIError err)) ?s1)"
        using r1 by (rule run_update)
      moreover have "run E (?s1\<lparr>awaiting := awaiting ?s1 @ [a]\<rparr>)" if "\<not> is_loop a" for a
        using r1 that by (rule run_await)
      ultimately show ?thesis
        using False v by (simp add: handleError_def Let_def)
    qed
  qed
qed

lemma run_callMethod_catch: "run E s \<Longrightarrow> run E (snd (callMethod_catch E rq e s))"
  by (erule run.segment) (simp_all add: callMethod_catch_def addAttempt_def Let_def)

lemma run_callMethod_restart: "run E s \<Longrightarrow> run E (snd (callMethod_restart E rq d s))"
  unfolding callMethod_restart_def
  by (rule run_requeue, erule run.segment) (simp_all add: filter_loop_remove1)

lemma run_callMethod_reply: "run E s \<Longrightarrow> run E (snd (callMethod_reply E rq resp s))"
  by (simp add: callMethod_reply_def Let_def run_handleError run_update split: option.splits)

lemma run_backoff_elapsed: "run E s \<Longrightarrow> run E (snd (backoff_elapsed E rq d s))"
  unfolding backoff_elapsed_def
  by (rule run_requeue, erule run.segment) (simp_all add: filter_loop_remove1)

lemma run_verification_passed: "run E s \<Longrightarrow> run E (snd (verification_passed E rq err tok s))"
  unfolding verification_passed_def
  by (rule run_requeue, erule run.segment) (simp_all add: filter_loop_remove1)

lemma run_verification_failed: "run E s \<Longrightarrow> run E (snd (verification_failed E rq err ve s))"
  by (erule run.segment) (simp_all add: verification_failed_def Let_def filter_loop_remove1)

lemma run_cooldown_elapsed: "run E s \<Longrightarrow> run E (snd (cooldown_elapsed E d s))"
  unfolding cooldown_elapsed_def
  by (rule run.call_worker, erule run.segment) (simp_all add: filter_loop_remove1)

lemma run_captcha_retry: "run E s \<Longrightarrow> run E (snd (captcha_retry E p key s))"
  by (cases key) (simp_all add: captcha_retry_def run_requeue run_update)

text \<open>
  C4. While \<^verbatim>\<open>started\<close> is set, a call of \<^verbatim>\<open>worker\<close> returns at once and changes
  nothing, so \<^verbatim>\<open>callWithRequest\<close>, \<^verbatim>\<open>enqueue\<close> and \<^verbatim>\<open>requeue\<close> only put the request
  into the queue. When \<^verbatim>\<open>started\<close> is clear, the first tick of the new
  loop runs in a state in which \<^verbatim>\<open>started\<close> is already set. And whenever a call
  of \<^verbatim>\<open>worker\<close> invokes a policy, \<^verbatim>\<open>started\<close> was clear before the call and is
  set after it, and one policy call is all it adds.
\<close>

theorem C4_single_loop:
  "(started s \<longrightarrow>
      worker E s = (None, s) \<and>
      callWithRequest E rq s = (None, s\<lparr>queue := queue s @ [rq]\<rparr>) \<and>
      enqueue E m p s =
        (None, s\<lparr>heap := (heap s)(nextId s := new_request m p), nextId := Suc (nextId s),
                 queue := queue s @ [nextId s]\<rparr>) \<and>
      requeue E rq s = (None, s\<lparr>queue := rq # queue s\<rparr>)) \<and>
   (\<not> started s \<and> getRequestHandler (apiMode E) = Inr h \<longrightarrow>
      worker E s = work h (interval E) (s\<lparr>started := True\<rparr>)) \<and>
   (awaiting (snd (worker E s)) \<noteq> awaiting s \<longrightarrow>
      \<not> started s \<and> started (snd (worker E s)) \<and>
      (\<exists>h. awaiting (snd (worker E s)) = awaiting s @ [HandlerCall h (interval E)]))"
  by (auto simp: worker_def callWithRequest_def enqueue_def requeue_def work_def call_handler_def
      split: sum.splits handler.splits if_splits)

theorem C4_single_loop_witness:
  "worker example_env (idle_with_one\<lparr>started := True\<rparr>) = (None, idle_with_one\<lparr>started := True\<rparr>) \<and>
   requeue example_env 1 (idle_with_one\<lparr>started := True\<rparr>) =
     (None, idle_with_one\<lparr>started := True, queue := [1, 0]\<rparr>) \<and>
   worker example_env idle_with_one =
     (None, idle_with_one\<lparr>started := True,
        awaiting := [HandlerCall Parallel (interval example_env)]\<rparr>)"
proof -
  have s: "started (idle_with_one\<lparr>started := True\<rparr>)"
    by simp
  have n: "\<not> started idle_with_one"
    by (simp add: idle_with_one_def fresh_def constructor_def)
  have g: "getRequestHandler (apiMode example_env) = Inr Parallel"
    by (simp add: example_env_def getRequestHandler_parallel)
  have q: "queue idle_with_one = [0]"
    by (simp add: idle_with_one_def)
  have w: "work Parallel (interval example_env) (idle_with_one\<lparr>started := True\<rparr>) =
             (None, idle_with_one\<lparr>started := True,
                awaiting := [HandlerCall Parallel (interval example_env)]\<rparr>)"
    by (simp add: work_def call_handler_def idle_with_one_def fresh_def constructor_def)
  note A = C4_single_loop [where s = "idle_with_one\<lparr>started := True\<rparr>" and E = example_env
      and rq = 1 and h = Parallel, THEN conjunct1, rule_format, OF s]
  note B = C4_single_loop [where s = idle_with_one and E = example_env and rq = 1
      and h = Parallel, THEN conjunct2, THEN conjunct1, rule_format, OF conjI [OF n g]]
  show ?thesis
    using A B by (simp add: q w)
qed

subsection \<open>C2: the rate limit\<close>

lemma call_handler_backoffs: "backoffs (snd (call_handler h i s)) = backoffs s"
  by (simp add: call_handler_def backoffs_def split: handler.splits)

lemma worker_backoffs: "backoffs (snd (worker E s)) = backoffs s"
  by (simp add: worker_def work_def call_handler_backoffs split: sum.splits)
     (simp add: backoffs_def)

lemma requeue_backoffs: "backoffs (snd (requeue E rq s)) = backoffs s"
  by (simp add: requeue_def worker_backoffs) (simp add: backoffs_def)

text \<open>
  C2. A reply with the error code \<^verbatim>\<open>TOO_MANY_REQUESTS\<close>: when \<^verbatim>\<open>suspended\<close> is set,
  \<^verbatim>\<open>handleError\<close> does what \<^verbatim>\<open>requeue\<close> does and starts no delay. Otherwise it sets
  \<^verbatim>\<open>suspended\<close> and waits for \<^verbatim>\<open>MINIMUM_TIME_INTERVAL_API / apiLimit + 50\<close>; when the
  delay is over, \<^verbatim>\<open>suspended\<close> is cleared and the request is at the head of the
  queue. A second such failure that arrives during the delay adds no second
  delay. No segment touches a request object, so no future is settled.
\<close>

theorem C2_rate_limit_backoff:
  assumes "code err = TOO_MANY_REQUESTS E"
  shows
    "(suspended s \<longrightarrow>
        handleError E rq err s = requeue E rq s \<and>
        backoffs (snd (handleError E rq err s)) = backoffs s) \<and>
     (\<not> suspended s \<longrightarrow>
        handleError E rq err s =
          (None, s\<lparr>suspended := True,
                   awaiting := awaiting s @
                     [BackoffDelay rq (Plus (Quot (Const (MINIMUM_TIME_INTERVAL_API E))
                                                  (Const (apiLimit E))) (Const 50))]\<rparr>)) \<and>
     (\<not> suspended s \<and> code err' = TOO_MANY_REQUESTS E \<longrightarrow>
        backoffs (snd (handleError E rq' err' (snd (handleError E rq err s)))) =
          backoffs s @
            [BackoffDelay rq (Plus (Quot (Const (MINIMUM_TIME_INTERVAL_API E))
                                         (Const (apiLimit E))) (Const 50))]) \<and>
     suspended (snd (backoff_elapsed E rq d s)) = False \<and>
     queue (snd (backoff_elapsed E rq d s)) = rq # queue s \<and>
     heap (snd (handleError E rq err s)) = heap s \<and>
     heap (snd (backoff_elapsed E rq d s)) = heap s"
  using assms
  by (simp add: handleError_def requeue_backoffs backoff_elapsed_def)
     (simp add: backoffs_def)

theorem C2_rate_limit_backoff_witness:
  "handleError example_env 0 rate_limit_error fresh =
     (None, fresh\<lparr>suspended := True,
        awaiting := [BackoffDelay 0 (Plus (Quot (Const 1133) (Const 3)) (Const 50))]\<rparr>) \<and>
   backoffs (snd (handleError example_env 1 rate_limit_error
                    (snd (handleError example_env 0 rate_limit_error fresh)))) =
     [BackoffDelay 0 (Plus (Quot (Const 1133) (Const 3)) (Const 50))] \<and>
   promise (heap (snd (handleError example_env 0 rate_limit_error fresh)) 0) = Pending"
proof -
  have c: "code rate_limit_error = TOO_MANY_REQUESTS example_env"
    by (simp add: rate_limit_error_def example_env_def)
  have f: "\<not> suspended fresh" "awaiting fresh = []" "backoffs fresh = []"
    "promise (heap fresh 0) = Pending"
    by (simp_all add: fresh_def constructor_def new_request_def backoffs_def)
  have m: "MINIMUM_TIME_INTERVAL_API example_env = 1133" "apiLimit example_env = 3"
    by (simp_all add: example_env_def)
  note T = C2_rate_limit_backoff [OF c, of fresh 0 rate_limit_error 1]
  have a: "handleError example_env 0 rate_limit_error fresh =
             (None, fresh\<lparr>suspended := True,
                awaiting := [BackoffDelay 0 (Plus (Quot (Const 1133) (Const 3)) (Const 50))]\<rparr>)"
    using T [THEN conjunct2, THEN conjunct1] f m by simp
  have b: "backoffs (snd (handleError example_env 1 rate_limit_error
                    (snd (handleError example_env 0 rate_limit_error fresh)))) =
             [BackoffDelay 0 (Plus (Quot (Const 1133) (Const 3)) (Const 50))]"
    using T [THEN conjunct2, THEN conjunct2, THEN conjunct1] c f m by simp
  have h: "heap (snd (handleError example_env 0 rate_limit_error fresh)) = heap fresh"
    using T by simp
  show ?thesis
    using a b h f by simp
qed

subsection \<open>C3: a failed transport call\<close>

text \<open>
  C3. When \<^verbatim>\<open>fetch\<close> or the parsing of its reply throws, the attempt counter of
  the request goes up by one. While the new count is at most \<^verbatim>\<open>apiAttempts\<close>, the
  handler waits for \<^verbatim>\<open>apiWait\<close> and settles neither future; after the delay the
  request is at the head of the queue, still unsettled. Once the new count
  exceeds \<^verbatim>\<open>apiAttempts\<close>, the challenge future (if there is one) and the result
  future are rejected with the error that was caught, and the request is
  neither put into the queue nor left waiting for anything.
\<close>

theorem C3_transport_failure:
  "attempts (heap (snd (callMethod_catch E rq e s)) rq) = attempts (heap s rq) + 1 \<and>
   (attempts (heap s rq) + 1 \<le> apiAttempts E \<longrightarrow>
      callMethod_catch E rq e s =
        (None, s\<lparr>heap := (heap s)(rq := (heap s rq)\<lparr>attempts := attempts (heap s rq) + 1\<rparr>),
                 awaiting := awaiting s @ [RetryDelay rq (Const (apiWait E))]\<rparr>) \<and>
      promise (heap (snd (callMethod_catch E rq e s)) rq) = promise (heap s rq) \<and>
      captcha (heap (snd (callMethod_catch E rq e s)) rq) = captcha (heap s rq)) \<and>
   queue (snd (callMethod_restart E rq d s)) = rq # queue s \<and>
   heap (snd (callMethod_restart E rq d s)) = heap s \<and>
   (apiAttempts E < attempts (heap s rq) + 1 \<longrightarrow>
      fst (callMethod_catch E rq e s) = None \<and>
      promise (heap (snd (callMethod_catch E rq e s)) rq) =
        settle (Rejected e) (promise (heap s rq)) \<and>
      captcha (heap (snd (callMethod_catch E rq e s)) rq) =
        map_option (settle (Rejected e)) (captcha (heap s rq)) \<and>
      (promise (heap s rq) = Pending \<longrightarrow>
         promise (heap (snd (callMethod_catch E rq e s)) rq) = Rejected e) \<and>
      (captcha (heap s rq) = Some Pending \<longrightarrow>
         captcha (heap (snd (callMethod_catch E rq e s)) rq) = Some (Rejected e)) \<and>
      queue (snd (callMethod_catch E rq e s)) = queue s \<and>
      awaiting (snd (callMethod_catch E rq e s)) = awaiting s)"
  by (simp add: callMethod_catch_def addAttempt_def callMethod_restart_def Let_def)

theorem C3_transport_failure_witness:
  "attempts (heap (snd (callMethod_catch example_env 0 (FetchError ''ETIMEDOUT'') fresh)) 0) = 1 \<and>
   awaiting (snd (callMethod_catch example_env 0 (FetchError ''ETIMEDOUT'') fresh)) =
     [RetryDelay 0 (Const 3000)] \<and>
   promise (heap (snd (callMethod_catch example_env 0 (FetchError ''ETIMEDOUT'') fresh)) 0) = Pending \<and>
   promise (heap (snd (callMethod_catch example_env 0 (FetchError ''ETIMEDOUT'') exhausted)) 0) =
     Rejected (FetchError ''ETIMEDOUT'') \<and>
   queue (snd (callMethod_catch example_env 0 (FetchError ''ETIMEDOUT'') exhausted)) = []"
proof -
  have f: "attempts (heap fresh 0) = 0" "awaiting fresh = []" "promise (heap fresh 0) = Pending"
    by (simp_all add: fresh_def constructor_def new_request_def)
  have x: "attempts (heap exhausted 0) = 3" "queue exhausted = []"
    "promise (heap exhausted 0) = Pending"
    by (simp_all add: exhausted_def fresh_def constructor_def new_request_def)
  have m: "apiAttempts example_env = 3" "apiWait example_env = 3000"
    by (simp_all add: example_env_def)
  show ?thesis
    using C3_transport_failure [of example_env 0 "FetchError ''ETIMEDOUT''" fresh]
      C3_transport_failure [of example_env 0 "FetchError ''ETIMEDOUT''" exhausted]
    by (simp add: f x m)
qed

subsection \<open>C6: a captcha\<close>

text \<open>
  C6. A reply with the error code \<^verbatim>\<open>CAPTCHA_REQUIRED\<close> (which is neither of the two
  codes tested before it): without a captcha handler the result future is
  rejected with that error in the same segment, and nothing is queued or left
  waiting. With a handler, the handler is called with the image, the sid and
  the request, and the result future is left as it was. When the handler
  answers with a key that is not an \<^verbatim>\<open>Error\<close>, the sid and the key are written
  into the parameters of the request, a fresh challenge future is attached,
  and the request is at the head of the queue, its result future still as it
  was.
\<close>

theorem C6_captcha:
  assumes "code err = CAPTCHA_REQUIRED E"
    and "code err \<noteq> TOO_MANY_REQUESTS E"
    and "code err \<noteq> USER_VALIDATION_REQUIRED E"
  shows
    "(\<not> captchaHandler E \<longrightarrow>
        fst (handleError E rq err s) = None \<and>
        promise (heap (snd (handleError E rq err s)) rq) =
          settle (Rejected (APIError err)) (promise (heap s rq)) \<and>
        (promise (heap s rq) = Pending \<longrightarrow>
           promise (heap (snd (handleError E rq err s)) rq) = Rejected (APIError err)) \<and>
        queue (snd (handleError E rq err s)) = queue s \<and>
        awaiting (snd (handleError E rq err s)) = awaiting s) \<and>
     (captchaHandler E \<longrightarrow>
        awaiting (snd (handleError E rq err s)) =
          awaiting s @ [CaptchaHandler \<lparr>ptype = captchaTypes_API E, src = captchaImg err,
                                          sid = captchaSid err, request = rq\<rparr>] \<and>
        promise (heap (snd (handleError E rq err s)) rq) = promise (heap s rq) \<and>
        queue (snd (handleError E rq err s)) = queue s) \<and>
     ((\<forall>m. key \<noteq> ErrorObj m) \<longrightarrow>
        params (heap (snd (captcha_retry E p key s)) (request p)) ''captcha_sid'' = Some (sid p) \<and>
        params (heap (snd (captcha_retry E p key s)) (request p)) ''captcha_key'' = Some key \<and>
        captcha (heap (snd (captcha_retry E p key s)) (request p)) = Some Pending \<and>
        promise (heap (snd (captcha_retry E p key s)) (request p)) = promise (heap s (request p)) \<and>
        queue (snd (captcha_retry E p key s)) = request p # queue s)"
proof -
  have a: "\<not> captchaHandler E \<Longrightarrow>
      handleError E rq err s =
        (None, update rq (reject (APIError err)) (update rq (captcha_reject (APIError err)) s))"
    using assms by (simp add: handleError_def Let_def)
  have b: "captchaHandler E \<Longrightarrow>
      handleError E rq err s =
        (None, (update rq (captcha_reject (APIError err)) s)
           \<lparr>awaiting := awaiting s @ [CaptchaHandler \<lparr>ptype = captchaTypes_API E,
               src = captchaImg err, sid = captchaSid err, request = rq\<rparr>]\<rparr>)"
    using assms by (simp add: handleError_def Let_def)
  have c: "(\<forall>m. key \<noteq> ErrorObj m) \<Longrightarrow>
      captcha_retry E p key s =
        requeue E (request p)
          (update (request p)
             (\<lambda>r. r\<lparr>params := (params r)(''captcha_sid'' \<mapsto> sid p, ''captcha_key'' \<mapsto> key),
                     captcha := Some Pending\<rparr>) s)"
    by (cases key) (simp_all add: captcha_retry_def)
  show ?thesis
    using a b c by simp
qed

theorem C6_captcha_witness:
  "promise (heap (snd (handleError (example_env\<lparr>captchaHandler := False\<rparr>) 0 captcha_error fresh)) 0) =
     Rejected (APIError captcha_error) \<and>
   awaiting (snd (handleError example_env 0 captcha_error fresh)) =
     [CaptchaHandler \<lparr>ptype = ''API'', src = Str ''https://api.vk.com/captcha.php?sid=588'',
                       sid = Str ''588'', request = 0\<rparr>] \<and>
   params (heap (snd (captcha_retry example_env
                        \<lparr>ptype = ''API'', src = Str ''https://api.vk.com/captcha.php?sid=588'',
                          sid = Str ''588'', request = 0\<rparr> (Str ''abc'') fresh)) 0) ''captcha_key'' =
     Some (Str ''abc'') \<and>
   queue (snd (captcha_retry example_env
                 \<lparr>ptype = ''API'', src = Str ''https://api.vk.com/captcha.php?sid=588'',
                   sid = Str ''588'', request = 0\<rparr> (Str ''abc'') fresh)) = [0]"
proof -
  let ?E = "example_env\<lparr>captchaHandler := False\<rparr>"
  let ?p = "\<lparr>ptype = ''API'', src = Str ''https://api.vk.com/captcha.php?sid=588'',
             sid = Str ''588'', request = 0\<rparr>"
  have c: "code captcha_error = CAPTCHA_REQUIRED example_env"
    "code captcha_error \<noteq> TOO_MANY_REQUESTS example_env"
    "code captcha_error \<noteq> USER_VALIDATION_REQUIRED example_env"
    by (simp_all add: captcha_error_def example_env_def)
  have c': "code captcha_error = CAPTCHA_REQUIRED ?E"
    "code captcha_error \<noteq> TOO_MANY_REQUESTS ?E"
    "code captcha_error \<noteq> USER_VALIDATION_REQUIRED ?E"
    by (simp_all add: captcha_error_def example_env_def)
  have e: "\<not> captchaHandler ?E" "captchaHandler example_env" "captchaTypes_API example_env = ''API''"
    by (simp_all add: example_env_def)
  have f: "promise (heap fresh 0) = Pending" "awaiting fresh = []" "queue fresh = []"
    by (simp_all add: fresh_def constructor_def new_request_def)
  have k: "Str ''abc'' \<noteq> ErrorObj m" for m
    by simp
  have x: "captchaImg captcha_error = Str ''https://api.vk.com/captcha.php?sid=588''"
    "captchaSid captcha_error = Str ''588''"
    by (simp_all add: captcha_error_def)
  note A = C6_captcha [OF c', of 0 fresh "Str ''abc''" ?p, THEN conjunct1, rule_format, OF e(1)]
  note B = C6_captcha [OF c, of 0 fresh "Str ''abc''" ?p, THEN conjunct2, THEN conjunct1,
      rule_format, OF e(2)]
  note C = C6_captcha [OF c, of 0 fresh "Str ''abc''" ?p, THEN conjunct2, THEN conjunct2,
      rule_format, OF k]
  show ?thesis
    using A B C by (simp add: f x e)
qed

subsection \<open>C7: a validation that fails\<close>

text \<open>
  C7. A reply with the error code \<^verbatim>\<open>USER_VALIDATION_REQUIRED\<close> (which is not the
  code tested before it) makes \<^verbatim>\<open>handleError\<close> set \<^verbatim>\<open>suspended\<close> and run the account
  verification. When the verification fails, the result future of the request
  is rejected with the error of the reply, not with the error of the
  verification, and a delay of 15000 ms starts, during which \<^verbatim>\<open>suspended\<close> stays
  as it was. When that delay is over, \<^verbatim>\<open>suspended\<close> is cleared and \<^verbatim>\<open>worker\<close> is
  called: with requests in the queue and no loop running, it invokes the
  policy, so the loop runs again.
\<close>

theorem C7_verification_failed:
  assumes "code err = USER_VALIDATION_REQUIRED E"
    and "code err \<noteq> TOO_MANY_REQUESTS E"
  shows
    "(\<not> suspended s \<longrightarrow>
        handleError E rq err s =
          (None, (update rq (captcha_reject (APIError err)) s)
                   \<lparr>suspended := True, awaiting := awaiting s @ [Verification rq err]\<rparr>)) \<and>
     fst (verification_failed E rq err verificationError s) = None \<and>
     promise (heap (snd (verification_failed E rq err verificationError s)) rq) =
       settle (Rejected (APIError err)) (promise (heap s rq)) \<and>
     (promise (heap s rq) = Pending \<longrightarrow>
        promise (heap (snd (verification_failed E rq err verificationError s)) rq) =
          Rejected (APIError err)) \<and>
     awaiting (snd (verification_failed E rq err verificationError s)) =
       remove1 (Verification rq err) (awaiting s) @ [CooldownDelay (Const 15000)] \<and>
     suspended (snd (verification_failed E rq err verificationError s)) = suspended s \<and>
     queue (snd (verification_failed E rq err verificationError s)) = queue s \<and>
     cooldown_elapsed E d s =
       worker E (s\<lparr>suspended := False, awaiting := remove1 (CooldownDelay d) (awaiting s)\<rparr>) \<and>
     suspended (snd (cooldown_elapsed E d s)) = False \<and>
     (\<not> started s \<and> queue s \<noteq> [] \<and> policy h \<and> getRequestHandler (apiMode E) = Inr h \<longrightarrow>
        cooldown_elapsed E d s =
          (None, s\<lparr>suspended := False,
                   awaiting := remove1 (CooldownDelay d) (awaiting s) @ [HandlerCall h (interval E)],
                   started := True\<rparr>))"
proof -
  have a: "\<not> suspended s \<Longrightarrow> handleError E rq err s =
          (None, (update rq (captcha_reject (APIError err)) s)
                   \<lparr>suspended := True, awaiting := awaiting s @ [Verification rq err]\<rparr>)"
    using assms by (simp add: handleError_def Let_def)
  have b: "verification_failed E rq err verificationError s =
      (None, (update rq (reject (APIError err))
                (s\<lparr>awaiting := remove1 (Verification rq err) (awaiting s)\<rparr>))
         \<lparr>awaiting := remove1 (Verification rq err) (awaiting s) @ [CooldownDelay (Const 15000)]\<rparr>)"
    by (simp add: verification_failed_def Let_def)
  have c: "\<not> started s \<and> queue s \<noteq> [] \<and> policy h \<and> getRequestHandler (apiMode E) = Inr h \<Longrightarrow>
        cooldown_elapsed E d s =
          (None, s\<lparr>suspended := False,
                   awaiting := remove1 (CooldownDelay d) (awaiting s) @ [HandlerCall h (interval E)],
                   started := True\<rparr>)"
    unfolding cooldown_elapsed_def
    by (subst worker_starts [where h = h]) simp_all
  show ?thesis
    using a c by (simp add: b) (simp add: cooldown_elapsed_def)
qed

theorem C7_verification_failed_witness:
  "promise (heap (snd (verification_failed example_env 1 validation_error (FetchError ''denied'')
                         (two_in_flight\<lparr>awaiting := [Verification 1 validation_error]\<rparr>))) 1) =
     Rejected (APIError validation_error) \<and>
   awaiting (snd (verification_failed example_env 1 validation_error (FetchError ''denied'')
                    (two_in_flight\<lparr>awaiting := [Verification 1 validation_error]\<rparr>))) =
     [CooldownDelay (Const 15000)] \<and>
   cooldown_elapsed example_env (Const 15000)
       (idle_with_one\<lparr>suspended := True, awaiting := [CooldownDelay (Const 15000)]\<rparr>) =
     (None, idle_with_one\<lparr>suspended := False,
        awaiting := [HandlerCall Parallel (interval example_env)], started := True\<rparr>)"
proof -
  let ?s = "two_in_flight\<lparr>awaiting := [Verification 1 validation_error]\<rparr>"
  let ?i = "idle_with_one\<lparr>suspended := True, awaiting := [CooldownDelay (Const 15000)]\<rparr>"
  have c: "code validation_error = USER_VALIDATION_REQUIRED example_env"
    "code validation_error \<noteq> TOO_MANY_REQUESTS example_env"
    by (simp_all add: validation_error_def example_env_def)
  have p: "promise (heap ?s 1) = Pending"
    by (simp add: two_in_flight_def new_request_def)
  have i: "\<not> started ?i \<and> queue ?i \<noteq> [] \<and> policy Parallel \<and>
           getRequestHandler (apiMode example_env) = Inr Parallel"
    by (simp add: idle_with_one_def fresh_def constructor_def policy_def example_env_def
        getRequestHandler_parallel)
  note T = C7_verification_failed [OF c, of ?s 1 "FetchError ''denied''" "Const 15000"]
  note U = C7_verification_failed [OF c, of ?i 1 "FetchError ''denied''" "Const 15000" Parallel]
  have a: "promise (heap (snd (verification_failed example_env 1 validation_error
              (FetchError ''denied'') ?s)) 1) = Rejected (APIError validation_error)"
    using T p by simp
  have b: "awaiting (snd (verification_failed example_env 1 validation_error
              (FetchError ''denied'') ?s)) = [CooldownDelay (Const 15000)]"
    using T by simp
  have d: "cooldown_elapsed example_env (Const 15000) ?i =
     (None, idle_with_one\<lparr>suspended := False,
        awaiting := [HandlerCall Parallel (interval example_env)], started := True\<rparr>)"
    using U [THEN conjunct2, THEN conjunct2, THEN conjunct2, THEN conjunct2, THEN conjunct2,
        THEN conjunct2, THEN conjunct2, THEN conjunct2, THEN conjunct2, rule_format, OF i]
    by simp
  show ?thesis
    using a b d by simp
qed

subsection \<open>C8: the result of an execute call\<close>

text \<open>
  C8. A reply without the key \<^verbatim>\<open>error\<close> to a request whose method name starts
  with \<^verbatim>\<open>execute\<close> resolves the result future with the pair of
  \<^verbatim>\<open>response.response\<close> and the list of \<^verbatim>\<open>response.execute_errors\<close> (the empty list
  when the key is missing), each wrapped into an \<^verbatim>\<open>ExecuteError\<close>. The per-step
  errors reject nothing: a pending result future ends resolved, whatever the
  list holds, and nothing is queued or left waiting.
\<close>

theorem C8_execute_composite:
  assumes "startsWith (method_name (heap s rq)) ''execute''" and "error resp = None"
  shows
    "promise (heap (snd (callMethod_reply E rq resp s)) rq) =
       settle (Resolved (Composite (response resp)
                 (map ExecuteError (case execute_errors resp of None \<Rightarrow> [] | Some es \<Rightarrow> es))))
              (promise (heap s rq)) \<and>
     (promise (heap s rq) = Pending \<longrightarrow>
        promise (heap (snd (callMethod_reply E rq resp s)) rq) =
          Resolved (Composite (response resp)
                 (map ExecuteError (case execute_errors resp of None \<Rightarrow> [] | Some es \<Rightarrow> es)))) \<and>
     fst (callMethod_reply E rq resp s) = None \<and>
     queue (snd (callMethod_reply E rq resp s)) = queue s \<and>
     awaiting (snd (callMethod_reply E rq resp s)) = awaiting s"
  using assms by (simp add: callMethod_reply_def Let_def)

theorem C8_execute_composite_witness:
  "promise (heap (snd (callMethod_reply example_env 0 partial_reply executing)) 0) =
     Resolved (Composite (Some (JArr [JNum 1, JBool False]))
       [ExecuteError (JObj [(''method'', JStr ''users.get''), (''error_code'', JNum 113)])]) \<and>
   promise (heap (snd (callMethod_reply example_env 0 (partial_reply\<lparr>execute_errors := None\<rparr>)
                         executing)) 0) =
     Resolved (Composite (Some (JArr [JNum 1, JBool False])) [])"
proof -
  have m: "startsWith (method_name (heap executing 0)) ''execute''"
    by (simp add: executing_def startsWith_def)
  have e: "error partial_reply = None" "error (partial_reply\<lparr>execute_errors := None\<rparr>) = None"
    by (simp_all add: partial_reply_def)
  have p: "promise (heap executing 0) = Pending"
    by (simp add: executing_def fresh_def constructor_def new_request_def)
  have r: "response partial_reply = Some (JArr [JNum 1, JBool False])"
    "execute_errors partial_reply =
       Some [JObj [(''method'', JStr ''users.get''), (''error_code'', JNum 113)]]"
    by (simp_all add: partial_reply_def)
  show ?thesis
    using C8_execute_composite [OF m e(1), of example_env]
      C8_execute_composite [OF m e(2), of example_env]
    by (simp add: p r)
qed

subsection \<open>C1: a request in the queue twice\<close>

lemma validation_requeues_twice:
  assumes "code err = USER_VALIDATION_REQUIRED E" and "code err \<noteq> TOO_MANY_REQUESTS E"
    and "suspended s" and "started s"
  shows "queue (snd (verification_passed E rq err tok (snd (handleError E rq err s)))) =
           rq # rq # queue s"
  using assms
  by (simp add: handleError_def Let_def requeue_def worker_started verification_passed_def)

lemma validation_requeues_twice_idle:
  assumes "code err = USER_VALIDATION_REQUIRED E" and "code err \<noteq> TOO_MANY_REQUESTS E"
    and "suspended s" and "started s"
  shows "queue (snd (verification_passed E rq err tok
                  (snd (timeout_fires h i (snd (handleError E rq err s)))))) =
           rq # rq # queue s"
  using assms
  by (simp add: handleError_def Let_def requeue_def worker_started verification_passed_def
      timeout_fires_def)

lemma validation_rejects_queued:
  assumes "code err = USER_VALIDATION_REQUIRED E" and "code err \<noteq> TOO_MANY_REQUESTS E"
    and "suspended s" and "started s" and "promise (heap s rq) = Pending"
  shows "queue (snd (verification_failed E rq err ve (snd (handleError E rq err s)))) =
           rq # queue s \<and>
         promise (heap (snd (verification_failed E rq err ve (snd (handleError E rq err s)))) rq) =
           Rejected (APIError err)"
  using assms
  by (simp add: handleError_def Let_def requeue_def worker_started verification_failed_def)

text \<open>
  C1. The claim is that a request is in the queue at most once, also when the
  validation recovery finds \<^verbatim>\<open>suspended\<close> already set. The source does otherwise:
  in that branch \<^verbatim>\<open>handleError\<close> calls \<^verbatim>\<open>requeue\<close> and, unlike the rate-limit branch
  above it, does not return, so it goes on to run the verification and calls
  \<^verbatim>\<open>requeue\<close> a second time when the verification passes. Here two requests are
  in flight, the recovery of request 0 holds \<^verbatim>\<open>suspended\<close>, the reply to
  request 1 asks for a validation too, and its verification passes: the queue
  then holds request 1 twice, whether or not the loop's timer fires in between.
\<close>

theorem C1_request_queued_twice:
  "queue (snd (verification_passed example_env 1 validation_error (Str ''new'')
            (snd (handleError example_env 1 validation_error two_in_flight)))) = [1, 1] \<and>
   queue (snd (verification_passed example_env 1 validation_error (Str ''new'')
            (snd (timeout_fires Parallel (interval example_env)
               (snd (handleError example_env 1 validation_error two_in_flight)))))) = [1, 1]"
  using validation_requeues_twice [of validation_error example_env two_in_flight 1 "Str ''new''"]
    validation_requeues_twice_idle [of validation_error example_env two_in_flight 1
      "Str ''new''" Parallel "interval example_env"]
  by (simp add: example_env_def validation_error_def two_in_flight_def)

theorem C1_request_queued_twice_witness:
  "\<not> distinct (queue (snd (verification_passed example_env 1 validation_error (Str ''new'')
            (snd (handleError example_env 1 validation_error two_in_flight)))))"
  using C1_request_queued_twice by simp

subsection \<open>C10: a mode that is not a policy\<close>

lemma getRequestHandler_unsupported:
  assumes "mode \<noteq> ''sequential''" and "mode \<noteq> ''parallel''" and "mode \<noteq> ''parallel_selected''"
    and "mode \<notin> set objectPrototype"
  shows "getRequestHandler (Some mode) = Inl (VKError ''Unsuported api mode'')"
  using assms by (simp add: getRequestHandler_def requestHandlers_def)

lemma worker_unsupported:
  assumes "getRequestHandler (apiMode E) = Inl e" and "\<not> started s"
  shows "worker E s = (Some e, s\<lparr>started := True\<rparr>)"
  using assms by (simp add: worker_def)

text \<open>
  C10. The claim is that every mode other than the three policies makes
  \<^verbatim>\<open>worker\<close> throw \<^verbatim>\<open>VKError('Unsuported api mode')\<close> after it has set \<^verbatim>\<open>started\<close>.
  That holds for a mode that names no property of \<^verbatim>\<open>Object.prototype\<close> (the two
  lemmas above). For \<^verbatim>\<open>'toString'\<close> the lookup in the table finds the inherited
  function, the test \<^verbatim>\<open>!handler\<close> fails and nothing is thrown: \<^verbatim>\<open>worker\<close> returns
  with \<^verbatim>\<open>started\<close> set, no policy invoked and no timer set, so the request in
  the queue is never dispatched.
\<close>

theorem C10_inherited_mode_not_refused:
  "getRequestHandler (Some ''toString'') = Inr (Inherited ''toString'') \<and>
   worker (example_env\<lparr>apiMode := Some ''toString''\<rparr>) idle_with_one =
     (None, idle_with_one\<lparr>started := True\<rparr>)"
  by (simp add: getRequestHandler_def requestHandlers_def objectPrototype_def worker_def
      work_def call_handler_def example_env_def idle_with_one_def fresh_def constructor_def)

theorem C10_inherited_mode_not_refused_witness:
  "fst (worker (example_env\<lparr>apiMode := Some ''toString''\<rparr>) idle_with_one) \<noteq>
     Some (VKError ''Unsuported api mode'') \<and>
   getRequestHandler (Some ''bogus'') = Inl (VKError ''Unsuported api mode'')"
  using C10_inherited_mode_not_refused
    getRequestHandler_unsupported [of "''bogus''"]
  by (simp add: objectPrototype_def)

end
